theory Spec2Isabelle
  imports Main "HOL-Library.Sublist"
begin

section \<open>The recipe \<open>conanfile.py\<close> of atomic-strain\<close>

text \<open>
  The repository is one Conan recipe: the class \<open>AtomicStrainConan\<close> with its declared
  attributes and five hooks. Four hooks delegate to the CMake helpers of Conan, which are
  not part of the repository; the fifth, \<open>package_info\<close>, fills in \<open>self.cpp_info\<close>.
\<close>

subsection \<open>Data\<close>

text \<open>
  \<open>self.cpp_info\<close>: the properties set with \<open>set_property\<close> (a dictionary), and the
  two attributes the recipe assigns.
\<close>

record cpp_info =
  properties :: "string \<rightharpoonup> string"
  libs :: "string list"
  requires :: "string list"

text \<open>
  The recipe object. The tuples of the class body are lists; \<open>cpp_info\<close> is the object
  the hook \<open>package_info\<close> writes to. The class attribute \<open>settings\<close> declares names
  only. On the instance, \<open>self.settings\<close> holds the value of each setting, which a hook
  could assign (\<open>self.settings.os = ...\<close>): these are \<open>settings_values\<close>, from setting
  name to value.
\<close>

record conanfile =
  name :: string
  version :: string
  package_type :: string
  license :: string
  settings :: "string list"
  requires :: "string list"
  exports_sources :: "string list"
  settings_values :: "string \<rightharpoonup> string"
  cpp_info :: cpp_info

text \<open>
  The class body of \<open>AtomicStrainConan\<close>. The class creates neither the setting values
  nor \<open>cpp_info\<close>: the instance gets the values from the profile of the invoking build
  and \<open>cpp_info\<close> from Conan, so both are parameters.
\<close>

definition AtomicStrainConan :: "(string \<rightharpoonup> string) \<Rightarrow> cpp_info \<Rightarrow> conanfile" where
  "AtomicStrainConan profile ci =
     \<lparr> name = ''atomic-strain'',
       version = ''1.0.0'',
       package_type = ''static-library'',
       license = ''MIT'',
       settings = [''os'', ''arch'', ''compiler'', ''build_type''],
       requires =
         [''coretoolkit/1.0.0'',
          ''nlohmann_json/3.11.3'',
          ''spdlog/1.14.1'',
          ''fmt/10.2.1''],
       exports_sources = [''CMakeLists.txt'', ''include/*'', ''src/*''],
       settings_values = profile,
       cpp_info = ci \<rparr>"

subsection \<open>The external build driver\<close>

text \<open>
  The entry points of \<open>conan.tools.cmake\<close> the recipe calls. \<open>cmake_layout\<close> and the
  three constructors take \<open>self\<close>; a method takes the helper object it is called on,
  of type \<open>'h\<close>.
\<close>

datatype 'h ext_call =
    cmake_layout
  | CMakeToolchain
  | CMakeToolchain_generate 'h
  | CMakeDeps
  | CMakeDeps_generate 'h
  | CMake
  | CMake_configure 'h
  | CMake_build 'h
  | CMake_install 'h

text \<open>
  The driver is a parameter. A call sees the recipe object (the helpers keep a reference to
  \<open>self\<close>) and the state \<open>'w\<close> of everything else (build tree, package folder, the
  orchestrator), may change both, and either returns a value or raises an error \<open>'e\<close>
  (\<open>Inl\<close>).
\<close>

type_synonym ('e, 'h, 'w) driver =
  "'h ext_call \<Rightarrow> conanfile \<Rightarrow> 'w \<Rightarrow> ('e + 'h) \<times> conanfile \<times> 'w"

text \<open>
  The state of a run: the recipe object, the driver's state, and the log of the driver
  calls made so far (oldest first).
\<close>

record ('h, 'w) run =
  self :: conanfile
  world :: 'w
  calls :: "'h ext_call list"

type_synonym ('e, 'a, 'h, 'w) prog = "('h, 'w) run \<Rightarrow> ('e + 'a) \<times> ('h, 'w) run"

text \<open>A Python statement sequence: an exception of the first part skips the rest.\<close>

definition bind_prog ::
  "('e, 'a, 'h, 'w) prog \<Rightarrow> ('a \<Rightarrow> ('e, 'b, 'h, 'w) prog) \<Rightarrow> ('e, 'b, 'h, 'w) prog" where
  "bind_prog m f s = (case m s of (Inl e, s') \<Rightarrow> (Inl e, s') | (Inr a, s') \<Rightarrow> f a s')"

text \<open>Falling off the end of a Python function returns \<open>None\<close>.\<close>

definition return_None :: "('e, unit, 'h, 'w) prog" where
  "return_None s = (Inr (), s)"

text \<open>One call into the driver, logged whether it returns or raises.\<close>

definition call :: "('e, 'h, 'w) driver \<Rightarrow> 'h ext_call \<Rightarrow> ('e, 'h, 'h, 'w) prog" where
  "call drv c s =
     (case drv c (self s) (world s) of
        (r, cf, w) \<Rightarrow> (r, s\<lparr>self := cf, world := w, calls := calls s @ [c]\<rparr>))"

subsection \<open>The hooks that delegate\<close>

text \<open>\<^verbatim>\<open>def layout(self): cmake_layout(self)\<close>\<close>

definition layout :: "('e, 'h, 'w) driver \<Rightarrow> ('e, unit, 'h, 'w) prog" where
  "layout drv = bind_prog (call drv cmake_layout) (\<lambda>_. return_None)"

text \<open>
  \<^verbatim>\<open>def generate(self):
      CMakeToolchain(self).generate()
      CMakeDeps(self).generate()\<close>
\<close>

definition generate :: "('e, 'h, 'w) driver \<Rightarrow> ('e, unit, 'h, 'w) prog" where
  "generate drv =
     bind_prog (call drv CMakeToolchain) (\<lambda>tc.
     bind_prog (call drv (CMakeToolchain_generate tc)) (\<lambda>_.
     bind_prog (call drv CMakeDeps) (\<lambda>deps.
     bind_prog (call drv (CMakeDeps_generate deps)) (\<lambda>_.
     return_None))))"

text \<open>
  \<^verbatim>\<open>def build(self):
      cmake = CMake(self)
      cmake.configure()
      cmake.build()\<close>
\<close>

definition build :: "('e, 'h, 'w) driver \<Rightarrow> ('e, unit, 'h, 'w) prog" where
  "build drv =
     bind_prog (call drv CMake) (\<lambda>cmake.
     bind_prog (call drv (CMake_configure cmake)) (\<lambda>_.
     bind_prog (call drv (CMake_build cmake)) (\<lambda>_.
     return_None)))"

text \<open>
  \<^verbatim>\<open>def package(self):
      cmake = CMake(self)
      cmake.install()\<close>
\<close>

definition package :: "('e, 'h, 'w) driver \<Rightarrow> ('e, unit, 'h, 'w) prog" where
  "package drv =
     bind_prog (call drv CMake) (\<lambda>cmake.
     bind_prog (call drv (CMake_install cmake)) (\<lambda>_.
     return_None))"

subsection \<open>\<open>package_info\<close>\<close>

text \<open>
  \<open>set_property\<close> of Conan's \<open>cpp_info\<close> object stores the value under the key of the
  properties dictionary.
\<close>

definition set_property :: "string \<Rightarrow> string \<Rightarrow> cpp_info \<Rightarrow> cpp_info" where
  "set_property k v ci = ci\<lparr>properties := (properties ci)(k \<mapsto> v)\<rparr>"

text \<open>A statement that updates \<open>self.cpp_info\<close> in place.\<close>

definition on_cpp_info :: "(cpp_info \<Rightarrow> cpp_info) \<Rightarrow> ('e, unit, 'h, 'w) prog" where
  "on_cpp_info f s = (Inr (), s\<lparr>self := (self s)\<lparr>cpp_info := f (cpp_info (self s))\<rparr>\<rparr>)"

text \<open>
  \<^verbatim>\<open>def package_info(self):
      self.cpp_info.set_property("cmake_target_name", "atomic-strain::atomic-strain")
      self.cpp_info.libs = ["atomic-strain_lib"]
      self.cpp_info.requires = [
          "coretoolkit::coretoolkit",
          "nlohmann_json::nlohmann_json",
          "spdlog::spdlog",
          "fmt::fmt",
      ]\<close>
\<close>

definition package_info :: "('e, unit, 'h, 'w) prog" where
  "package_info =
     bind_prog (on_cpp_info (set_property ''cmake_target_name'' ''atomic-strain::atomic-strain''))
       (\<lambda>_.
     bind_prog (on_cpp_info (\<lambda>ci. ci\<lparr>libs := [''atomic-strain_lib'']\<rparr>)) (\<lambda>_.
     on_cpp_info (\<lambda>ci. ci\<lparr>cpp_info.requires :=
        [''coretoolkit::coretoolkit'',
         ''nlohmann_json::nlohmann_json'',
         ''spdlog::spdlog'',
         ''fmt::fmt'']\<rparr>)))"

subsection \<open>Observing a run\<close>

text \<open>The driver calls a program made, in order: what it added to the log.\<close>

definition issued :: "('e, 'a, 'h, 'w) prog \<Rightarrow> ('h, 'w) run \<Rightarrow> 'h ext_call list" where
  "issued p s = drop (length (calls s)) (calls (snd (p s)))"

text \<open>The entry points of a list of calls, the helper objects forgotten.\<close>

definition steps :: "'h ext_call list \<Rightarrow> unit ext_call list" where
  "steps cs = map (map_ext_call (\<lambda>_. ())) cs"

text \<open>
  What the driver alone does over a list of calls, from a recipe object and a driver
  state: the values it returns or raises, and where it leaves both.
\<close>

fun outcomes ::
  "('e, 'h, 'w) driver \<Rightarrow> 'h ext_call list \<Rightarrow> conanfile \<times> 'w \<Rightarrow> ('e + 'h) list" where
  "outcomes drv [] st = []"
| "outcomes drv (c # cs) (cf, w) =
     (case drv c cf w of (r, cf', w') \<Rightarrow> r # outcomes drv cs (cf', w'))"

fun replay ::
  "('e, 'h, 'w) driver \<Rightarrow> 'h ext_call list \<Rightarrow> conanfile \<times> 'w \<Rightarrow> conanfile \<times> 'w" where
  "replay drv [] st = st"
| "replay drv (c # cs) (cf, w) =
     (case drv c cf w of (r, cf', w') \<Rightarrow> replay drv cs (cf', w'))"

definition returned :: "'e + 'a \<Rightarrow> bool" where
  "returned r = (case r of Inl _ \<Rightarrow> False | Inr _ \<Rightarrow> True)"

text \<open>The attributes the class body declares, as one value.\<close>

definition declared ::
  "conanfile \<Rightarrow> string \<times> string \<times> string \<times> string \<times> string list \<times> string list \<times> string list" where
  "declared cf =
     (name cf, version cf, package_type cf, license cf, settings cf, requires cf,
      exports_sources cf)"

text \<open>A driver that never writes a declared attribute of the recipe object.\<close>

definition keeps_declared :: "('e, 'h, 'w) driver \<Rightarrow> bool" where
  "keeps_declared drv = (\<forall>c cf w. declared (fst (snd (drv c cf w))) = declared cf)"

text \<open>A driver that never writes the value of a setting.\<close>

definition keeps_settings :: "('e, 'h, 'w) driver \<Rightarrow> bool" where
  "keeps_settings drv =
     (\<forall>c cf w. settings_values (fst (snd (drv c cf w))) = settings_values cf)"

subsection \<open>Package references\<close>

text \<open>A reference of \<open>requires\<close> reads \<open>name/version\<close>.\<close>

definition pkg_name :: "string \<Rightarrow> string" where
  "pkg_name ref = takeWhile (\<lambda>c. c \<noteq> CHR ''/'') ref"

definition pkg_version :: "string \<Rightarrow> string" where
  "pkg_version ref = drop 1 (dropWhile (\<lambda>c. c \<noteq> CHR ''/'') ref)"

text \<open>An exact version is a dotted number; Conan writes a version range in brackets.\<close>

definition exact_version :: "string \<Rightarrow> bool" where
  "exact_version v = (v \<noteq> [] \<and> list_all (\<lambda>c. c \<in> set ''0123456789.'') v)"

definition version_range :: "string \<Rightarrow> bool" where
  "version_range v = (CHR ''['' \<in> set v)"

text \<open>The CMake target of a package: \<open>pkg::pkg\<close>.\<close>

definition target_of :: "string \<Rightarrow> string" where
  "target_of pkg = pkg @ ''::'' @ pkg"

subsection \<open>Two drivers to run the hooks on\<close>

text \<open>
  \<open>counting_driver\<close> always returns: the driver state counts the calls and the count is
  the value returned. \<open>raising_driver bad\<close> does the same, but raises on the calls
  \<open>bad\<close> holds for, leaving the state as it was.
\<close>

definition counting_driver :: "(string, nat, nat) driver" where
  "counting_driver c cf w = (Inr (Suc w), cf, Suc w)"

definition raising_driver :: "(nat ext_call \<Rightarrow> bool) \<Rightarrow> (string, nat, nat) driver" where
  "raising_driver bad c cf w =
     (if bad c then (Inl ''CMake failed'', cf, w) else (Inr (Suc w), cf, Suc w))"

text \<open>
  Drivers that raise at the first, second, third and fourth call of a hook (counting the
  construction of a helper as a call).
\<close>

definition raising_first :: "(string, nat, nat) driver" where
  "raising_first = raising_driver (\<lambda>c. c = cmake_layout \<or> c = CMakeToolchain \<or> c = CMake)"

definition raising_second :: "(string, nat, nat) driver" where
  "raising_second =
     raising_driver (\<lambda>c. c = CMakeToolchain_generate (Suc 0) \<or> c = CMake_configure (Suc 0) \<or>
        c = CMake_install (Suc 0))"

definition raising_third :: "(string, nat, nat) driver" where
  "raising_third = raising_driver (\<lambda>c. c = CMakeDeps \<or> c = CMake_build (Suc 0))"

definition raising_fourth :: "(string, nat, nat) driver" where
  "raising_fourth = raising_driver (\<lambda>c. c = CMakeDeps_generate 3)"

text \<open>A profile of a release build on Linux, and a run that starts there.\<close>

definition linux_release :: "string \<rightharpoonup> string" where
  "linux_release =
     [''os'' \<mapsto> ''Linux'', ''arch'' \<mapsto> ''x86_64'', ''compiler'' \<mapsto> ''gcc'',
      ''build_type'' \<mapsto> ''Release'']"

definition start :: "(nat, nat) run" where
  "start =
     \<lparr>self = AtomicStrainConan linux_release \<lparr>properties = Map.empty, libs = [], requires = []\<rparr>,
      world = 0, calls = []\<rparr>"

subsection \<open>What the claims speak of\<close>

text \<open>
  A program performs exactly the steps \<open>E\<close>: it only appends to the log; the entry
  points it called are an initial part of \<open>E\<close>, all of \<open>E\<close> when it returns; and the
  recipe object and the driver state it leaves are those the driver itself produces over
  the calls made, so the program did nothing else to them.
\<close>

definition performs_exactly ::
  "('e, 'h, 'w) driver \<Rightarrow> ('e, unit, 'h, 'w) prog \<Rightarrow> ('h, 'w) run \<Rightarrow> unit ext_call list \<Rightarrow> bool"
  where
  "performs_exactly drv p s E =
     (calls (snd (p s)) = calls s @ issued p s \<and>
      prefix (steps (issued p s)) E \<and>
      (returned (fst (p s)) \<longrightarrow> steps (issued p s) = E) \<and>
      (self (snd (p s)), world (snd (p s))) = replay drv (issued p s) (self s, world s))"

text \<open>What \<open>package_info\<close> publishes: the target name, the libraries, the targets required.\<close>

definition published :: "cpp_info \<Rightarrow> string option \<times> string list \<times> string list" where
  "published ci = (properties ci ''cmake_target_name'', libs ci, cpp_info.requires ci)"

text \<open>
  A program stops with the error \<open>e\<close> after the calls \<open>cs\<close>: its result is \<open>e\<close>, it
  has logged \<open>cs\<close> and nothing more, and the recipe object and the driver state are where
  the driver left them over \<open>cs\<close>.
\<close>

definition stops_with ::
  "('e, 'h, 'w) driver \<Rightarrow> ('e, unit, 'h, 'w) prog \<Rightarrow> ('h, 'w) run \<Rightarrow> 'h ext_call list \<Rightarrow> 'e \<Rightarrow> bool"
  where
  "stops_with drv p s cs e =
     (p s =
       (Inl e,
        s\<lparr>self := fst (replay drv cs (self s, world s)),
          world := snd (replay drv cs (self s, world s)),
          calls := calls s @ cs\<rparr>))"

section \<open>Properties\<close>

subsection \<open>Auxiliary facts\<close>

lemma bind_call:
  "bind_prog (call drv c) f s =
     (case drv c (self s) (world s) of
        (Inl e, cf, w) \<Rightarrow> (Inl e, s\<lparr>self := cf, world := w, calls := calls s @ [c]\<rparr>)
      | (Inr h, cf, w) \<Rightarrow> f h (s\<lparr>self := cf, world := w, calls := calls s @ [c]\<rparr>))"
  by (simp add: bind_prog_def call_def split: prod.splits sum.splits)

lemmas run_defs = bind_call return_None_def issued_def

lemma layout_exact: "performs_exactly drv (layout drv) s [cmake_layout]"
  by (simp add: performs_exactly_def layout_def run_defs steps_def returned_def
      split: prod.splits sum.splits)

lemma generate_exact:
  "performs_exactly drv (generate drv) s
     [CMakeToolchain, CMakeToolchain_generate (), CMakeDeps, CMakeDeps_generate ()]"
  by (simp add: performs_exactly_def generate_def run_defs steps_def returned_def
      split: prod.splits sum.splits)

lemma build_exact:
  "performs_exactly drv (build drv) s [CMake, CMake_configure (), CMake_build ()]"
  by (simp add: performs_exactly_def build_def run_defs steps_def returned_def
      split: prod.splits sum.splits)

lemma package_exact:
  "performs_exactly drv (package drv) s [CMake, CMake_install ()]"
  by (simp add: performs_exactly_def package_def run_defs steps_def returned_def
      split: prod.splits sum.splits)

lemma generate_objects:
  "returned (fst (generate drv s)) \<Longrightarrow>
     \<exists>tc deps. issued (generate drv) s =
        [CMakeToolchain, CMakeToolchain_generate tc, CMakeDeps, CMakeDeps_generate deps]"
  by (auto simp add: generate_def run_defs returned_def split: prod.splits sum.splits)

lemma build_objects:
  "returned (fst (build drv s)) \<Longrightarrow>
     \<exists>cmake. issued (build drv) s = [CMake, CMake_configure cmake, CMake_build cmake] \<and>
        fst (drv CMake (self s) (world s)) = Inr cmake"
  by (auto simp add: build_def run_defs returned_def split: prod.splits sum.splits)

lemma package_objects:
  "returned (fst (package drv s)) \<Longrightarrow>
     \<exists>cmake. issued (package drv) s = [CMake, CMake_install cmake] \<and>
        fst (drv CMake (self s) (world s)) = Inr cmake"
  by (auto simp add: package_def run_defs returned_def split: prod.splits sum.splits)

lemma hook_cases:
  assumes "H \<in> {layout, generate, build, package}"
  obtains "H = layout" | "H = generate" | "H = build" | "H = package"
  using assms by blast

lemma hook_exact:
  assumes "H \<in> {layout, generate, build, package}"
  shows "\<exists>E. performs_exactly drv (H drv) s E"
  using assms layout_exact generate_exact build_exact package_exact
  by (elim hook_cases) blast+

lemma package_info_result:
  "package_info s =
     (Inr (), s\<lparr>self := (self s)\<lparr>cpp_info := (cpp_info (self s))
        \<lparr>properties := (properties (cpp_info (self s)))
            (''cmake_target_name'' \<mapsto> ''atomic-strain::atomic-strain''),
         libs := [''atomic-strain_lib''],
         cpp_info.requires :=
           [''coretoolkit::coretoolkit'', ''nlohmann_json::nlohmann_json'',
            ''spdlog::spdlog'', ''fmt::fmt'']\<rparr>\<rparr>\<rparr>)"
  by (simp add: package_info_def bind_prog_def on_cpp_info_def set_property_def)

lemma replay_keeps_declared:
  "keeps_declared drv \<Longrightarrow> declared (fst (replay drv cs (cf, w))) = declared cf"
proof (induction cs arbitrary: cf w)
  case Nil
  then show ?case by simp
next
  case (Cons c cs)
  obtain r cf' w' where d: "drv c cf w = (r, cf', w')"
    by (cases "drv c cf w") auto
  have "declared cf' = declared cf"
    using Cons.prems d by (metis fst_conv keeps_declared_def snd_conv)
  then show ?case
    using Cons d by simp
qed

lemma counting_driver_keeps_declared: "keeps_declared counting_driver"
  by (simp add: keeps_declared_def counting_driver_def)

lemma errors_layout:
  "(Inl e \<in> set (outcomes drv (issued (layout drv) s) (self s, world s))) =
     (fst (layout drv s) = Inl e) \<and>
   list_all returned (butlast (outcomes drv (issued (layout drv) s) (self s, world s))) \<and>
   distinct (steps (issued (layout drv) s))"
  by (auto simp add: layout_def run_defs steps_def returned_def
      split: prod.splits sum.splits)

lemma errors_generate:
  "(Inl e \<in> set (outcomes drv (issued (generate drv) s) (self s, world s))) =
     (fst (generate drv s) = Inl e) \<and>
   list_all returned (butlast (outcomes drv (issued (generate drv) s) (self s, world s))) \<and>
   distinct (steps (issued (generate drv) s))"
  by (auto simp add: generate_def run_defs steps_def returned_def
      split: prod.splits sum.splits)

lemma errors_build:
  "(Inl e \<in> set (outcomes drv (issued (build drv) s) (self s, world s))) =
     (fst (build drv s) = Inl e) \<and>
   list_all returned (butlast (outcomes drv (issued (build drv) s) (self s, world s))) \<and>
   distinct (steps (issued (build drv) s))"
  by (auto simp add: build_def run_defs steps_def returned_def
      split: prod.splits sum.splits)

lemma errors_package:
  "(Inl e \<in> set (outcomes drv (issued (package drv) s) (self s, world s))) =
     (fst (package drv s) = Inl e) \<and>
   list_all returned (butlast (outcomes drv (issued (package drv) s) (self s, world s))) \<and>
   distinct (steps (issued (package drv) s))"
  by (auto simp add: package_def run_defs steps_def returned_def
      split: prod.splits sum.splits)

lemma same_layout:
  "self s1 = self s2 \<Longrightarrow> world s1 = world s2 \<Longrightarrow>
   fst (layout drv s1) = fst (layout drv s2) \<and>
   issued (layout drv) s1 = issued (layout drv) s2 \<and>
   self (snd (layout drv s1)) = self (snd (layout drv s2)) \<and>
   world (snd (layout drv s1)) = world (snd (layout drv s2))"
  by (simp add: layout_def run_defs split: prod.splits sum.splits)

lemma same_generate:
  "self s1 = self s2 \<Longrightarrow> world s1 = world s2 \<Longrightarrow>
   fst (generate drv s1) = fst (generate drv s2) \<and>
   issued (generate drv) s1 = issued (generate drv) s2 \<and>
   self (snd (generate drv s1)) = self (snd (generate drv s2)) \<and>
   world (snd (generate drv s1)) = world (snd (generate drv s2))"
  by (simp add: generate_def run_defs split: prod.splits sum.splits)

lemma same_build:
  "self s1 = self s2 \<Longrightarrow> world s1 = world s2 \<Longrightarrow>
   fst (build drv s1) = fst (build drv s2) \<and>
   issued (build drv) s1 = issued (build drv) s2 \<and>
   self (snd (build drv s1)) = self (snd (build drv s2)) \<and>
   world (snd (build drv s1)) = world (snd (build drv s2))"
  by (simp add: build_def run_defs split: prod.splits sum.splits)

lemma same_package:
  "self s1 = self s2 \<Longrightarrow> world s1 = world s2 \<Longrightarrow>
   fst (package drv s1) = fst (package drv s2) \<and>
   issued (package drv) s1 = issued (package drv) s2 \<and>
   self (snd (package drv s1)) = self (snd (package drv s2)) \<and>
   world (snd (package drv s1)) = world (snd (package drv s2))"
  by (simp add: package_def run_defs split: prod.splits sum.splits)

lemmas stop_defs = run_defs stops_with_def

lemma layout_stops:
  "outcomes drv [cmake_layout] (self s, world s) = [Inl e] \<Longrightarrow>
     stops_with drv (layout drv) s [cmake_layout] e"
  by (auto simp add: layout_def stop_defs split: prod.splits sum.splits)

lemma generate_stops_1:
  "outcomes drv [CMakeToolchain] (self s, world s) = [Inl e] \<Longrightarrow>
     stops_with drv (generate drv) s [CMakeToolchain] e"
  by (auto simp add: generate_def stop_defs split: prod.splits sum.splits)

lemma generate_stops_2:
  "outcomes drv [CMakeToolchain, CMakeToolchain_generate tc] (self s, world s) =
     [Inr tc, Inl e] \<Longrightarrow>
     stops_with drv (generate drv) s [CMakeToolchain, CMakeToolchain_generate tc] e"
  by (auto simp add: generate_def stop_defs split: prod.splits sum.splits)

lemma generate_stops_3:
  "outcomes drv [CMakeToolchain, CMakeToolchain_generate tc, CMakeDeps] (self s, world s) =
     [Inr tc, Inr v, Inl e] \<Longrightarrow>
     stops_with drv (generate drv) s [CMakeToolchain, CMakeToolchain_generate tc, CMakeDeps] e"
  by (auto simp add: generate_def stop_defs split: prod.splits sum.splits)

lemma generate_stops_4:
  "outcomes drv [CMakeToolchain, CMakeToolchain_generate tc, CMakeDeps, CMakeDeps_generate deps]
       (self s, world s) = [Inr tc, Inr v, Inr deps, Inl e] \<Longrightarrow>
     stops_with drv (generate drv) s
       [CMakeToolchain, CMakeToolchain_generate tc, CMakeDeps, CMakeDeps_generate deps] e"
  by (auto simp add: generate_def stop_defs split: prod.splits sum.splits)

lemma build_stops_1:
  "outcomes drv [CMake] (self s, world s) = [Inl e] \<Longrightarrow>
     stops_with drv (build drv) s [CMake] e"
  by (auto simp add: build_def stop_defs split: prod.splits sum.splits)

lemma build_stops_2:
  "outcomes drv [CMake, CMake_configure cmake] (self s, world s) = [Inr cmake, Inl e] \<Longrightarrow>
     stops_with drv (build drv) s [CMake, CMake_configure cmake] e"
  by (auto simp add: build_def stop_defs split: prod.splits sum.splits)

lemma build_stops_3:
  "outcomes drv [CMake, CMake_configure cmake, CMake_build cmake] (self s, world s) =
     [Inr cmake, Inr v, Inl e] \<Longrightarrow>
     stops_with drv (build drv) s [CMake, CMake_configure cmake, CMake_build cmake] e"
  by (auto simp add: build_def stop_defs split: prod.splits sum.splits)

lemma package_stops_1:
  "outcomes drv [CMake] (self s, world s) = [Inl e] \<Longrightarrow>
     stops_with drv (package drv) s [CMake] e"
  by (auto simp add: package_def stop_defs split: prod.splits sum.splits)

lemma package_stops_2:
  "outcomes drv [CMake, CMake_install cmake] (self s, world s) = [Inr cmake, Inl e] \<Longrightarrow>
     stops_with drv (package drv) s [CMake, CMake_install cmake] e"
  by (auto simp add: package_def stop_defs split: prod.splits sum.splits)

lemma layout_returns:
  "outcomes drv [cmake_layout] (self s, world s) = [Inr v] \<Longrightarrow> fst (layout drv s) = Inr ()"
  by (auto simp add: layout_def run_defs split: prod.splits sum.splits)

lemma generate_returns:
  "outcomes drv [CMakeToolchain, CMakeToolchain_generate tc, CMakeDeps, CMakeDeps_generate deps]
       (self s, world s) = [Inr tc, Inr v, Inr deps, Inr v'] \<Longrightarrow>
     fst (generate drv s) = Inr ()"
  by (auto simp add: generate_def run_defs split: prod.splits sum.splits)

lemma build_returns:
  "outcomes drv [CMake, CMake_configure cmake, CMake_build cmake] (self s, world s) =
     [Inr cmake, Inr v, Inr v'] \<Longrightarrow>
     fst (build drv s) = Inr ()"
  by (auto simp add: build_def run_defs split: prod.splits sum.splits)

lemma package_returns:
  "outcomes drv [CMake, CMake_install cmake] (self s, world s) = [Inr cmake, Inr v] \<Longrightarrow>
     fst (package drv s) = Inr ()"
  by (auto simp add: package_def run_defs split: prod.splits sum.splits)

lemma hook_errors_logged:
  assumes "H \<in> {layout, generate, build, package}"
  shows "(Inl e \<in> set (outcomes drv (issued (H drv) s) (self s, world s))) =
           (fst (H drv s) = Inl e) \<and>
         list_all returned (butlast (outcomes drv (issued (H drv) s) (self s, world s))) \<and>
         distinct (steps (issued (H drv) s)) \<and>
         (self (snd (H drv s)), world (snd (H drv s))) =
           replay drv (issued (H drv) s) (self s, world s)"
proof -
  obtain E where "performs_exactly drv (H drv) s E"
    using hook_exact [OF assms] by blast
  then have "(self (snd (H drv s)), world (snd (H drv s))) =
      replay drv (issued (H drv) s) (self s, world s)"
    by (simp add: performs_exactly_def)
  moreover have "(Inl e \<in> set (outcomes drv (issued (H drv) s) (self s, world s))) =
           (fst (H drv s) = Inl e) \<and>
         list_all returned (butlast (outcomes drv (issued (H drv) s) (self s, world s))) \<and>
         distinct (steps (issued (H drv) s))"
  proof -
    consider (l) "H = layout" | (g) "H = generate" | (b) "H = build" | (p) "H = package"
      using assms by blast
    then show ?thesis
    proof cases
      case l
      then show ?thesis using errors_layout [of e drv s] by simp
    next
      case g
      then show ?thesis using errors_generate [of e drv s] by simp
    next
      case b
      then show ?thesis using errors_build [of e drv s] by simp
    next
      case p
      then show ?thesis using errors_package [of e drv s] by simp
    qed
  qed
  ultimately show ?thesis by blast
qed

lemma replay_keeps_settings:
  "keeps_settings drv \<Longrightarrow>
     settings_values (fst (replay drv cs (cf, w))) = settings_values cf"
proof (induction cs arbitrary: cf w)
  case Nil
  then show ?case by simp
next
  case (Cons c cs)
  obtain r cf' w' where d: "drv c cf w = (r, cf', w')"
    by (cases "drv c cf w") auto
  have "settings_values cf' = settings_values cf"
    using Cons.prems d by (metis fst_conv keeps_settings_def snd_conv)
  then show ?case
    using Cons d by simp
qed

lemma counting_driver_keeps_settings: "keeps_settings counting_driver"
  by (simp add: keeps_settings_def counting_driver_def)

lemmas eval_defs =
  layout_def generate_def build_def package_def run_defs steps_def returned_def
  counting_driver_def raising_driver_def start_def
  raising_first_def raising_second_def raising_third_def raising_fourth_def

subsection \<open>The declared attributes\<close>

text \<open>
  Claim C2. The class declares the identity of the package: the name \<open>atomic-strain\<close>, the
  version \<open>1.0.0\<close>, the license \<open>MIT\<close> and the package type \<open>static-library\<close>.
\<close>

theorem package_identity:
  "name (AtomicStrainConan profile ci) = ''atomic-strain'' \<and>
   version (AtomicStrainConan profile ci) = ''1.0.0'' \<and>
   license (AtomicStrainConan profile ci) = ''MIT'' \<and>
   package_type (AtomicStrainConan profile ci) = ''static-library''"
  by (simp add: AtomicStrainConan_def)

text \<open>
  Claim C3. The class requires exactly four packages, in this order: \<open>coretoolkit\<close> at
  \<open>1.0.0\<close>, \<open>nlohmann_json\<close> at \<open>3.11.3\<close>, \<open>spdlog\<close> at \<open>1.14.1\<close> and \<open>fmt\<close> at
  \<open>10.2.1\<close>. Every version is one exact dotted number, and no reference is a version
  range.
\<close>

theorem requires_pinned:
  "conanfile.requires (AtomicStrainConan profile ci) =
     [''coretoolkit/1.0.0'', ''nlohmann_json/3.11.3'', ''spdlog/1.14.1'', ''fmt/10.2.1''] \<and>
   length (conanfile.requires (AtomicStrainConan profile ci)) = 4 \<and>
   map pkg_name (conanfile.requires (AtomicStrainConan profile ci)) =
     [''coretoolkit'', ''nlohmann_json'', ''spdlog'', ''fmt''] \<and>
   map pkg_version (conanfile.requires (AtomicStrainConan profile ci)) =
     [''1.0.0'', ''3.11.3'', ''1.14.1'', ''10.2.1''] \<and>
   list_all exact_version (map pkg_version (conanfile.requires (AtomicStrainConan profile ci))) \<and>
   \<not> list_ex version_range (conanfile.requires (AtomicStrainConan profile ci))"
  by (simp add: AtomicStrainConan_def pkg_name_def pkg_version_def exact_version_def
      version_range_def)

text \<open>
  Claim C6. The class exports exactly three source locations: the file
  \<open>CMakeLists.txt\<close> and the trees \<open>include/*\<close> and \<open>src/*\<close>.
\<close>

theorem exports_three_locations:
  "exports_sources (AtomicStrainConan profile ci) = [''CMakeLists.txt'', ''include/*'', ''src/*''] \<and>
   length (exports_sources (AtomicStrainConan profile ci)) = 3 \<and>
   distinct (exports_sources (AtomicStrainConan profile ci))"
  by (simp add: AtomicStrainConan_def)

text \<open>
  Claim C7. The settings declaration lists exactly the four settings \<open>os\<close>, \<open>arch\<close>,
  \<open>compiler\<close> and \<open>build_type\<close>, each once, and the recipe assigns a value to none of
  them. The class body binds no value: the values on the instance are those of the
  profile it was given. \<open>package_info\<close> leaves the declaration and every value as they
  were. The four delegating hooks assign nothing themselves: whenever the driver they
  pass \<open>self\<close> to writes no setting value, the values after the hook are those before
  it.
\<close>

theorem settings_four_names:
  fixes H :: "('e, 'h, 'w) driver \<Rightarrow> ('e, unit, 'h, 'w) prog"
  shows
  "settings (AtomicStrainConan profile ci) = [''os'', ''arch'', ''compiler'', ''build_type''] \<and>
   length (settings (AtomicStrainConan profile ci)) = 4 \<and>
   distinct (settings (AtomicStrainConan profile ci)) \<and>
   settings_values (AtomicStrainConan profile ci) = profile \<and>
   settings_values (self (snd ((package_info :: ('e, unit, 'h, 'w) prog) s))) =
     settings_values (self s) \<and>
   settings (self (snd ((package_info :: ('e, unit, 'h, 'w) prog) s))) = settings (self s) \<and>
   (H \<in> {layout, generate, build, package} \<and> keeps_settings drv \<longrightarrow>
      settings_values (self (snd (H drv s))) = settings_values (self s))"
proof -
  have decl: "settings (AtomicStrainConan profile ci) =
       [''os'', ''arch'', ''compiler'', ''build_type''] \<and>
     length (settings (AtomicStrainConan profile ci)) = 4 \<and>
     distinct (settings (AtomicStrainConan profile ci)) \<and>
     settings_values (AtomicStrainConan profile ci) = profile"
    by (simp add: AtomicStrainConan_def)
  have pi: "settings_values (self (snd ((package_info :: ('e, unit, 'h, 'w) prog) s))) =
       settings_values (self s) \<and>
     settings (self (snd ((package_info :: ('e, unit, 'h, 'w) prog) s))) = settings (self s)"
    by (simp add: package_info_result)
  have hk: "settings_values (self (snd (H drv s))) = settings_values (self s)"
    if H: "H \<in> {layout, generate, build, package}" and k: "keeps_settings drv"
  proof -
    obtain E where "performs_exactly drv (H drv) s E"
      using hook_exact [OF H] by blast
    then have "self (snd (H drv s)) = fst (replay drv (issued (H drv) s) (self s, world s))"
      by (metis fst_conv performs_exactly_def)
    then show ?thesis
      using replay_keeps_settings [OF k] by simp
  qed
  show ?thesis
    using decl pi hk by blast
qed

text \<open>\<open>build\<close> from the Linux release profile, on the driver that always returns.\<close>

theorem settings_four_names_witness:
  "build \<in> {layout, generate, build, package} \<and> keeps_settings counting_driver \<and>
   settings_values (self start) = linux_release \<and>
   settings_values (self (snd (build counting_driver start))) = linux_release \<and>
   settings_values (self (snd (build counting_driver start))) ''os'' = Some ''Linux''"
  using settings_four_names [of linux_release "cpp_info (self start)" start build counting_driver]
    counting_driver_keeps_settings
  by (simp add: start_def AtomicStrainConan_def linux_release_def)

subsection \<open>The hooks that delegate\<close>

text \<open>
  Claim C1. Each of \<open>layout\<close>, \<open>generate\<close>, \<open>build\<close> and \<open>package\<close> performs exactly
  its delegated steps, whatever the driver does: \<open>layout\<close> calls \<open>cmake_layout\<close>;
  \<open>generate\<close> creates the toolchain helper and generates with it, then creates the
  dependency helper and generates with it; \<open>build\<close> creates the CMake helper, configures
  and then builds with that same helper; \<open>package\<close> creates the CMake helper and installs
  with it. A hook that returns has made all of its calls in this order, a hook that raises
  has made an initial part of them, and in both cases the recipe object and the driver
  state are as the calls made left them: the hook did nothing else.
\<close>

theorem hooks_delegate:
  "performs_exactly drv (layout drv) s [cmake_layout] \<and>
   performs_exactly drv (generate drv) s
     [CMakeToolchain, CMakeToolchain_generate (), CMakeDeps, CMakeDeps_generate ()] \<and>
   performs_exactly drv (build drv) s [CMake, CMake_configure (), CMake_build ()] \<and>
   performs_exactly drv (package drv) s [CMake, CMake_install ()] \<and>
   (returned (fst (generate drv s)) \<longrightarrow>
      (\<exists>tc deps. issued (generate drv) s =
         [CMakeToolchain, CMakeToolchain_generate tc, CMakeDeps, CMakeDeps_generate deps])) \<and>
   (returned (fst (build drv s)) \<longrightarrow>
      (\<exists>cmake. issued (build drv) s = [CMake, CMake_configure cmake, CMake_build cmake] \<and>
         fst (drv CMake (self s) (world s)) = Inr cmake)) \<and>
   (returned (fst (package drv s)) \<longrightarrow>
      (\<exists>cmake. issued (package drv) s = [CMake, CMake_install cmake] \<and>
         fst (drv CMake (self s) (world s)) = Inr cmake))"
  by (intro conjI impI layout_exact generate_exact build_exact package_exact
      generate_objects build_objects package_objects)

text \<open>
  The hooks on the driver that always returns, and \<open>build\<close> cut short by a driver that
  raises on \<open>configure\<close>.
\<close>

theorem hooks_delegate_witness:
  "returned (fst (layout counting_driver start)) \<and>
   returned (fst (generate counting_driver start)) \<and>
   returned (fst (build counting_driver start)) \<and>
   returned (fst (package counting_driver start)) \<and>
   performs_exactly counting_driver (build counting_driver) start
     [CMake, CMake_configure (), CMake_build ()] \<and>
   issued (layout counting_driver) start = [cmake_layout] \<and>
   issued (generate counting_driver) start =
     [CMakeToolchain, CMakeToolchain_generate (Suc 0), CMakeDeps, CMakeDeps_generate 3] \<and>
   issued (build counting_driver) start =
     [CMake, CMake_configure (Suc 0), CMake_build (Suc 0)] \<and>
   issued (package counting_driver) start = [CMake, CMake_install (Suc 0)] \<and>
   steps (issued (build (raising_driver (\<lambda>c. c = CMake_configure (Suc 0)))) start) =
     [CMake, CMake_configure ()]"
  using hooks_delegate [of counting_driver start]
  by (simp add: eval_defs eval_nat_numeral)

text \<open>
  Claim C5. No hook validates, catches, retries or recovers. Whenever the driver, run
  over the calls of a hook from the hook's start state, raises \<open>e\<close> at the first, second,
  third or fourth of them, the hook stops with that same \<open>e\<close>: it has logged the calls up
  to the one that raised and no other, and the recipe object and the driver state are
  where the driver left them. Whenever the driver returns from all the calls of a hook,
  the hook returns: it raises no error of its own. In terms of the calls a hook made:
  an error is its result exactly when one of them raised it, every call before the last
  had returned, and no entry point was called twice.
\<close>

theorem hook_errors_propagate:
  "(outcomes drv [cmake_layout] (self s, world s) = [Inl e] \<longrightarrow>
      stops_with drv (layout drv) s [cmake_layout] e) \<and>
   (outcomes drv [CMakeToolchain] (self s, world s) = [Inl e] \<longrightarrow>
      stops_with drv (generate drv) s [CMakeToolchain] e) \<and>
   (outcomes drv [CMakeToolchain, CMakeToolchain_generate tc] (self s, world s) =
      [Inr tc, Inl e] \<longrightarrow>
      stops_with drv (generate drv) s [CMakeToolchain, CMakeToolchain_generate tc] e) \<and>
   (outcomes drv [CMakeToolchain, CMakeToolchain_generate tc, CMakeDeps] (self s, world s) =
      [Inr tc, Inr v, Inl e] \<longrightarrow>
      stops_with drv (generate drv) s
        [CMakeToolchain, CMakeToolchain_generate tc, CMakeDeps] e) \<and>
   (outcomes drv [CMakeToolchain, CMakeToolchain_generate tc, CMakeDeps, CMakeDeps_generate deps]
      (self s, world s) = [Inr tc, Inr v, Inr deps, Inl e] \<longrightarrow>
      stops_with drv (generate drv) s
        [CMakeToolchain, CMakeToolchain_generate tc, CMakeDeps, CMakeDeps_generate deps] e) \<and>
   (outcomes drv [CMake] (self s, world s) = [Inl e] \<longrightarrow>
      stops_with drv (build drv) s [CMake] e) \<and>
   (outcomes drv [CMake, CMake_configure cmake] (self s, world s) = [Inr cmake, Inl e] \<longrightarrow>
      stops_with drv (build drv) s [CMake, CMake_configure cmake] e) \<and>
   (outcomes drv [CMake, CMake_configure cmake, CMake_build cmake] (self s, world s) =
      [Inr cmake, Inr v, Inl e] \<longrightarrow>
      stops_with drv (build drv) s [CMake, CMake_configure cmake, CMake_build cmake] e) \<and>
   (outcomes drv [CMake] (self s, world s) = [Inl e] \<longrightarrow>
      stops_with drv (package drv) s [CMake] e) \<and>
   (outcomes drv [CMake, CMake_install cmake] (self s, world s) = [Inr cmake, Inl e] \<longrightarrow>
      stops_with drv (package drv) s [CMake, CMake_install cmake] e) \<and>
   (outcomes drv [cmake_layout] (self s, world s) = [Inr v] \<longrightarrow>
      fst (layout drv s) = Inr ()) \<and>
   (outcomes drv [CMakeToolchain, CMakeToolchain_generate tc, CMakeDeps, CMakeDeps_generate deps]
      (self s, world s) = [Inr tc, Inr v, Inr deps, Inr v'] \<longrightarrow>
      fst (generate drv s) = Inr ()) \<and>
   (outcomes drv [CMake, CMake_configure cmake, CMake_build cmake] (self s, world s) =
      [Inr cmake, Inr v, Inr v'] \<longrightarrow>
      fst (build drv s) = Inr ()) \<and>
   (outcomes drv [CMake, CMake_install cmake] (self s, world s) = [Inr cmake, Inr v] \<longrightarrow>
      fst (package drv s) = Inr ()) \<and>
   (H \<in> {layout, generate, build, package} \<longrightarrow>
      (Inl e \<in> set (outcomes drv (issued (H drv) s) (self s, world s))) =
        (fst (H drv s) = Inl e) \<and>
      list_all returned (butlast (outcomes drv (issued (H drv) s) (self s, world s))) \<and>
      distinct (steps (issued (H drv) s)) \<and>
      (self (snd (H drv s)), world (snd (H drv s))) =
        replay drv (issued (H drv) s) (self s, world s))"
  by (intro conjI impI layout_stops generate_stops_1 generate_stops_2 generate_stops_3
      generate_stops_4 build_stops_1 build_stops_2 build_stops_3 package_stops_1
      package_stops_2 layout_returns generate_returns build_returns package_returns;
      simp add: hook_errors_logged)

text \<open>
  Each hook on a driver that raises at each of its calls in turn, and \<open>build\<close> on the
  driver that always returns.
\<close>

theorem hook_errors_propagate_witness:
  "outcomes raising_first [cmake_layout] (self start, world start) = [Inl ''CMake failed''] \<and>
   layout raising_first start = (Inl ''CMake failed'', start\<lparr>calls := [cmake_layout]\<rparr>) \<and>
   outcomes raising_first [CMakeToolchain] (self start, world start) = [Inl ''CMake failed''] \<and>
   generate raising_first start = (Inl ''CMake failed'', start\<lparr>calls := [CMakeToolchain]\<rparr>) \<and>
   outcomes raising_second [CMakeToolchain, CMakeToolchain_generate (Suc 0)]
     (self start, world start) = [Inr (Suc 0), Inl ''CMake failed''] \<and>
   generate raising_second start =
     (Inl ''CMake failed'',
      start\<lparr>world := Suc 0, calls := [CMakeToolchain, CMakeToolchain_generate (Suc 0)]\<rparr>) \<and>
   outcomes raising_third [CMakeToolchain, CMakeToolchain_generate (Suc 0), CMakeDeps]
     (self start, world start) = [Inr (Suc 0), Inr 2, Inl ''CMake failed''] \<and>
   generate raising_third start =
     (Inl ''CMake failed'',
      start\<lparr>world := 2,
        calls := [CMakeToolchain, CMakeToolchain_generate (Suc 0), CMakeDeps]\<rparr>) \<and>
   outcomes raising_fourth
     [CMakeToolchain, CMakeToolchain_generate (Suc 0), CMakeDeps, CMakeDeps_generate 3]
     (self start, world start) = [Inr (Suc 0), Inr 2, Inr 3, Inl ''CMake failed''] \<and>
   generate raising_fourth start =
     (Inl ''CMake failed'',
      start\<lparr>world := 3,
        calls := [CMakeToolchain, CMakeToolchain_generate (Suc 0), CMakeDeps,
          CMakeDeps_generate 3]\<rparr>) \<and>
   outcomes raising_first [CMake] (self start, world start) = [Inl ''CMake failed''] \<and>
   build raising_first start = (Inl ''CMake failed'', start\<lparr>calls := [CMake]\<rparr>) \<and>
   outcomes raising_second [CMake, CMake_configure (Suc 0)] (self start, world start) =
     [Inr (Suc 0), Inl ''CMake failed''] \<and>
   build raising_second start =
     (Inl ''CMake failed'', start\<lparr>world := Suc 0, calls := [CMake, CMake_configure (Suc 0)]\<rparr>) \<and>
   outcomes raising_third [CMake, CMake_configure (Suc 0), CMake_build (Suc 0)]
     (self start, world start) = [Inr (Suc 0), Inr 2, Inl ''CMake failed''] \<and>
   build raising_third start =
     (Inl ''CMake failed'',
      start\<lparr>world := 2, calls := [CMake, CMake_configure (Suc 0), CMake_build (Suc 0)]\<rparr>) \<and>
   package raising_first start = (Inl ''CMake failed'', start\<lparr>calls := [CMake]\<rparr>) \<and>
   outcomes raising_second [CMake, CMake_install (Suc 0)] (self start, world start) =
     [Inr (Suc 0), Inl ''CMake failed''] \<and>
   package raising_second start =
     (Inl ''CMake failed'', start\<lparr>world := Suc 0, calls := [CMake, CMake_install (Suc 0)]\<rparr>) \<and>
   outcomes counting_driver [CMake, CMake_configure (Suc 0), CMake_build (Suc 0)]
     (self start, world start) = [Inr (Suc 0), Inr 2, Inr 3] \<and>
   fst (build counting_driver start) = Inr () \<and>
   build \<in> {layout, generate, build, package}"
  using
    hook_errors_propagate [of raising_first start "''CMake failed''" "Suc 0" 2 3 "Suc 0" 4 build]
    hook_errors_propagate [of raising_second start "''CMake failed''" "Suc 0" 2 3 "Suc 0" 4 build]
    hook_errors_propagate [of raising_third start "''CMake failed''" "Suc 0" 2 3 "Suc 0" 4 build]
    hook_errors_propagate [of raising_fourth start "''CMake failed''" "Suc 0" 2 3 "Suc 0" 4 build]
    hook_errors_propagate [of counting_driver start "''CMake failed''" "Suc 0" 2 3 "Suc 0" 3 build]
  by (simp add: eval_defs stops_with_def eval_nat_numeral)

subsection \<open>The published metadata\<close>

text \<open>
  Claim C4. \<open>package_info\<close> returns normally and publishes exactly three things in
  \<open>cpp_info\<close>: the property \<open>cmake_target_name\<close> with the value
  \<open>atomic-strain::atomic-strain\<close>, the one library \<open>atomic-strain_lib\<close>, and the four
  required targets. Nothing else of the run changes, and no driver call is made.
\<close>

theorem package_info_publishes:
  assumes "package_info s = (r, s')"
  shows "r = Inr () \<and>
    s' = s\<lparr>self := (self s)\<lparr>cpp_info := cpp_info (self s')\<rparr>\<rparr> \<and>
    cpp_info (self s') = (cpp_info (self s))
      \<lparr>properties := (properties (cpp_info (self s)))
          (''cmake_target_name'' \<mapsto> ''atomic-strain::atomic-strain''),
       libs := [''atomic-strain_lib''],
       cpp_info.requires :=
         [''coretoolkit::coretoolkit'', ''nlohmann_json::nlohmann_json'',
          ''spdlog::spdlog'', ''fmt::fmt'']\<rparr> \<and>
    published (cpp_info (self s')) =
      (Some ''atomic-strain::atomic-strain'', [''atomic-strain_lib''],
       [''coretoolkit::coretoolkit'', ''nlohmann_json::nlohmann_json'',
        ''spdlog::spdlog'', ''fmt::fmt'']) \<and>
    length (libs (cpp_info (self s'))) = 1 \<and>
    length (cpp_info.requires (cpp_info (self s'))) = 4 \<and>
    calls s' = calls s"
  using assms by (auto simp add: package_info_result published_def)

theorem package_info_publishes_witness:
  "fst (package_info start :: (string + unit) \<times> (nat, nat) run) = Inr () \<and>
   published (cpp_info (self (snd (package_info start :: (string + unit) \<times> (nat, nat) run)))) =
     (Some ''atomic-strain::atomic-strain'', [''atomic-strain_lib''],
       [''coretoolkit::coretoolkit'', ''nlohmann_json::nlohmann_json'',
        ''spdlog::spdlog'', ''fmt::fmt''])"
  using package_info_publishes [of start
      "fst (package_info start :: (string + unit) \<times> (nat, nat) run)"
      "snd (package_info start :: (string + unit) \<times> (nat, nat) run)"]
  by (simp add: published_def)

text \<open>
  Claim C8. On the recipe of the class, the targets \<open>package_info\<close> publishes follow
  the declared requirements: both lists have four entries, and the entry at each position
  of the published list is \<open>pkg::pkg\<close> for the package name \<open>pkg\<close> of the reference at
  the same position of \<open>requires\<close>.
\<close>

theorem published_targets_follow_requires:
  assumes "self s = AtomicStrainConan profile ci" and "package_info s = (r, s')"
  shows "cpp_info.requires (cpp_info (self s')) =
           map (\<lambda>ref. target_of (pkg_name ref)) (conanfile.requires (self s')) \<and>
         length (cpp_info.requires (cpp_info (self s'))) = 4 \<and>
         length (conanfile.requires (self s')) = 4 \<and>
         conanfile.requires (self s') = conanfile.requires (AtomicStrainConan profile ci) \<and>
         (\<forall>i<4. cpp_info.requires (cpp_info (self s')) ! i =
                  target_of (pkg_name (conanfile.requires (self s') ! i)))"
proof -
  have s': "s' = s\<lparr>self := (self s)\<lparr>cpp_info := (cpp_info (self s))
        \<lparr>properties := (properties (cpp_info (self s)))
            (''cmake_target_name'' \<mapsto> ''atomic-strain::atomic-strain''),
         libs := [''atomic-strain_lib''],
         cpp_info.requires :=
           [''coretoolkit::coretoolkit'', ''nlohmann_json::nlohmann_json'',
            ''spdlog::spdlog'', ''fmt::fmt'']\<rparr>\<rparr>\<rparr>"
    using assms(2) by (simp add: package_info_result)
  have eq: "cpp_info.requires (cpp_info (self s')) =
      map (\<lambda>ref. target_of (pkg_name ref)) (conanfile.requires (self s'))"
    unfolding s' using assms(1)
    by (simp add: AtomicStrainConan_def target_of_def pkg_name_def)
  have len: "length (conanfile.requires (self s')) = 4"
    unfolding s' using assms(1) by (simp add: AtomicStrainConan_def)
  have same: "conanfile.requires (self s') = conanfile.requires (AtomicStrainConan profile ci)"
    unfolding s' using assms(1) by simp
  have "\<forall>i<4. cpp_info.requires (cpp_info (self s')) ! i =
                  target_of (pkg_name (conanfile.requires (self s') ! i))"
    using len by (simp add: eq)
  then show ?thesis
    using eq len same by simp
qed

theorem published_targets_follow_requires_witness:
  "self start =
     AtomicStrainConan linux_release \<lparr>properties = Map.empty, libs = [], requires = []\<rparr> \<and>
   cpp_info.requires
     (cpp_info (self (snd (package_info start :: (string + unit) \<times> (nat, nat) run)))) ! 2 =
     ''spdlog::spdlog'' \<and>
   target_of (pkg_name (conanfile.requires
     (self (snd (package_info start :: (string + unit) \<times> (nat, nat) run))) ! 2)) =
     ''spdlog::spdlog''"
  using published_targets_follow_requires
    [of start linux_release "\<lparr>properties = Map.empty, libs = [], requires = []\<rparr>"
      "fst (package_info start :: (string + unit) \<times> (nat, nat) run)"
      "snd (package_info start :: (string + unit) \<times> (nat, nat) run)"]
  by (simp add: start_def package_info_result AtomicStrainConan_def target_of_def pkg_name_def)

subsection \<open>Determinism and frame\<close>

text \<open>
  Claim C9. The hooks do not branch on any input. Two runs of a delegating hook from the
  same recipe object and driver state, with the same driver, give the same result, the
  same calls and the same final recipe object and driver state, whatever was logged
  before. Two runs from any states with any drivers call the same entry points in the
  same order when both return, and otherwise one sequence is an initial part of the other.
  \<open>package_info\<close> makes no driver call and publishes the same metadata from every
  state.
\<close>

theorem hooks_deterministic:
  fixes H :: "('e, 'h, 'w) driver \<Rightarrow> ('e, unit, 'h, 'w) prog"
  assumes "H \<in> {layout, generate, build, package}"
  shows "(self s1 = self s2 \<and> world s1 = world s2 \<longrightarrow>
            fst (H drv s1) = fst (H drv s2) \<and>
            issued (H drv) s1 = issued (H drv) s2 \<and>
            self (snd (H drv s1)) = self (snd (H drv s2)) \<and>
            world (snd (H drv s1)) = world (snd (H drv s2))) \<and>
         (returned (fst (H drv s1)) \<and> returned (fst (H drv' s2)) \<longrightarrow>
            steps (issued (H drv) s1) = steps (issued (H drv') s2)) \<and>
         (prefix (steps (issued (H drv) s1)) (steps (issued (H drv') s2)) \<or>
          prefix (steps (issued (H drv') s2)) (steps (issued (H drv) s1))) \<and>
         fst ((package_info :: ('e, unit, 'h, 'w) prog) s1) = fst ((package_info :: ('e, unit, 'h, 'w) prog) s2) \<and>
         issued (package_info :: ('e, unit, 'h, 'w) prog) s1 = [] \<and>
         issued (package_info :: ('e, unit, 'h, 'w) prog) s2 = [] \<and>
         published (cpp_info (self (snd ((package_info :: ('e, unit, 'h, 'w) prog) s1)))) =
           published (cpp_info (self (snd ((package_info :: ('e, unit, 'h, 'w) prog) s2)))) \<and>
         (self s1 = self s2 \<longrightarrow>
            self (snd ((package_info :: ('e, unit, 'h, 'w) prog) s1)) =
            self (snd ((package_info :: ('e, unit, 'h, 'w) prog) s2)))"
proof -
  have same: "self s1 = self s2 \<and> world s1 = world s2 \<longrightarrow>
            fst (H drv s1) = fst (H drv s2) \<and>
            issued (H drv) s1 = issued (H drv) s2 \<and>
            self (snd (H drv s1)) = self (snd (H drv s2)) \<and>
            world (snd (H drv s1)) = world (snd (H drv s2))"
  proof -
    consider (l) "H = layout" | (g) "H = generate" | (b) "H = build" | (p) "H = package"
      using assms by blast
    then show ?thesis
    proof cases
      case l
      then show ?thesis using same_layout [of s1 s2 drv] by simp
    next
      case g
      then show ?thesis using same_generate [of s1 s2 drv] by simp
    next
      case b
      then show ?thesis using same_build [of s1 s2 drv] by simp
    next
      case p
      then show ?thesis using same_package [of s1 s2 drv] by simp
    qed
  qed
  have shape: "\<exists>E. performs_exactly drv (H drv) s1 E \<and> performs_exactly drv' (H drv') s2 E"
  proof -
    consider (l) "H = layout" | (g) "H = generate" | (b) "H = build" | (p) "H = package"
      using assms by blast
    then show ?thesis
    proof cases
      case l
      then show ?thesis using layout_exact by blast
    next
      case g
      then show ?thesis using generate_exact by blast
    next
      case b
      then show ?thesis using build_exact by blast
    next
      case p
      then show ?thesis using package_exact by blast
    qed
  qed
  then obtain E where E1: "performs_exactly drv (H drv) s1 E"
    and E2: "performs_exactly drv' (H drv') s2 E"
    by blast
  have full: "returned (fst (H drv s1)) \<and> returned (fst (H drv' s2)) \<longrightarrow>
            steps (issued (H drv) s1) = steps (issued (H drv') s2)"
    using E1 E2 by (simp add: performs_exactly_def)
  have pre: "prefix (steps (issued (H drv) s1)) (steps (issued (H drv') s2)) \<or>
          prefix (steps (issued (H drv') s2)) (steps (issued (H drv) s1))"
    using E1 E2 prefix_same_cases by (auto simp add: performs_exactly_def)
  have pi: "fst ((package_info :: ('e, unit, 'h, 'w) prog) s1) = fst ((package_info :: ('e, unit, 'h, 'w) prog) s2) \<and>
         issued (package_info :: ('e, unit, 'h, 'w) prog) s1 = [] \<and>
         issued (package_info :: ('e, unit, 'h, 'w) prog) s2 = [] \<and>
         published (cpp_info (self (snd ((package_info :: ('e, unit, 'h, 'w) prog) s1)))) =
           published (cpp_info (self (snd ((package_info :: ('e, unit, 'h, 'w) prog) s2)))) \<and>
         (self s1 = self s2 \<longrightarrow>
            self (snd ((package_info :: ('e, unit, 'h, 'w) prog) s1)) =
            self (snd ((package_info :: ('e, unit, 'h, 'w) prog) s2)))"
    by (simp add: package_info_result issued_def published_def)
  show ?thesis
    using same full pre pi by blast
qed

theorem hooks_deterministic_witness:
  "build \<in> {layout, generate, build, package} \<and>
   self start = self (start\<lparr>calls := [cmake_layout]\<rparr>) \<and>
   world start = world (start\<lparr>calls := [cmake_layout]\<rparr>) \<and>
   returned (fst (build counting_driver start)) \<and>
   returned (fst (build counting_driver (start\<lparr>world := 7\<rparr>))) \<and>
   issued (build counting_driver) (start\<lparr>calls := [cmake_layout]\<rparr>) =
     [CMake, CMake_configure (Suc 0), CMake_build (Suc 0)] \<and>
   issued (build counting_driver) start =
     [CMake, CMake_configure (Suc 0), CMake_build (Suc 0)] \<and>
   steps (issued (build counting_driver) (start\<lparr>world := 7\<rparr>)) =
     [CMake, CMake_configure (), CMake_build ()]"
  using hooks_deterministic [of build start "start\<lparr>calls := [cmake_layout]\<rparr>"
      counting_driver counting_driver]
    hooks_deterministic [of build start "start\<lparr>world := 7\<rparr>" counting_driver counting_driver]
  by (simp add: eval_defs)

text \<open>
  Claim C10. \<open>package_info\<close> changes the run only in \<open>cpp_info\<close>, and there leaves
  every property other than \<open>cmake_target_name\<close> as it was: the declared attributes
  (\<open>name\<close>, \<open>version\<close>, \<open>package_type\<close>, \<open>license\<close>, \<open>settings\<close>, \<open>requires\<close>,
  \<open>exports_sources\<close>), the driver state and the log are unchanged. The four delegating
  hooks write nothing themselves, so they leave the declared attributes unchanged whenever
  the driver they pass \<open>self\<close> to does.
\<close>

theorem hooks_frame:
  fixes H :: "('e, 'h, 'w) driver \<Rightarrow> ('e, unit, 'h, 'w) prog"
  shows "declared (self (snd ((package_info :: ('e, unit, 'h, 'w) prog) s))) = declared (self s) \<and>
     world (snd ((package_info :: ('e, unit, 'h, 'w) prog) s)) = world s \<and>
     calls (snd ((package_info :: ('e, unit, 'h, 'w) prog) s)) = calls s \<and>
     snd ((package_info :: ('e, unit, 'h, 'w) prog) s) =
       s\<lparr>self := (self s)\<lparr>cpp_info :=
          cpp_info (self (snd ((package_info :: ('e, unit, 'h, 'w) prog) s)))\<rparr>\<rparr> \<and>
     properties (cpp_info (self (snd ((package_info :: ('e, unit, 'h, 'w) prog) s))))
         |` (- {''cmake_target_name''}) =
       properties (cpp_info (self s)) |` (- {''cmake_target_name''}) \<and>
     (H \<in> {layout, generate, build, package} \<and> keeps_declared drv \<longrightarrow>
        declared (self (snd (H drv s))) = declared (self s))"
proof -
  have pi: "declared (self (snd ((package_info :: ('e, unit, 'h, 'w) prog) s))) = declared (self s) \<and>
     world (snd ((package_info :: ('e, unit, 'h, 'w) prog) s)) = world s \<and>
     calls (snd ((package_info :: ('e, unit, 'h, 'w) prog) s)) = calls s \<and>
     snd ((package_info :: ('e, unit, 'h, 'w) prog) s) =
       s\<lparr>self := (self s)\<lparr>cpp_info :=
          cpp_info (self (snd ((package_info :: ('e, unit, 'h, 'w) prog) s)))\<rparr>\<rparr> \<and>
     properties (cpp_info (self (snd ((package_info :: ('e, unit, 'h, 'w) prog) s))))
         |` (- {''cmake_target_name''}) =
       properties (cpp_info (self s)) |` (- {''cmake_target_name''})"
    by (simp add: package_info_result declared_def)
  have hk: "declared (self (snd (H drv s))) = declared (self s)"
    if H: "H \<in> {layout, generate, build, package}" and k: "keeps_declared drv"
  proof -
    obtain E where "performs_exactly drv (H drv) s E"
      using hook_exact [OF H] by blast
    then have "self (snd (H drv s)) = fst (replay drv (issued (H drv) s) (self s, world s))"
      by (metis fst_conv performs_exactly_def)
    then show ?thesis
      using replay_keeps_declared [OF k] by simp
  qed
  show ?thesis
    using pi hk by blast
qed

theorem hooks_frame_witness:
  "build \<in> {layout, generate, build, package} \<and> keeps_declared counting_driver \<and>
   declared (self (snd (build counting_driver start))) =
     (''atomic-strain'', ''1.0.0'', ''static-library'', ''MIT'',
      [''os'', ''arch'', ''compiler'', ''build_type''],
      [''coretoolkit/1.0.0'', ''nlohmann_json/3.11.3'', ''spdlog/1.14.1'', ''fmt/10.2.1''],
      [''CMakeLists.txt'', ''include/*'', ''src/*''])"
  using hooks_frame [of start build counting_driver] counting_driver_keeps_declared
  by (simp add: start_def declared_def AtomicStrainConan_def)

end
